theory Spec2Isabelle
  imports Main "HOL-Library.Word"
begin

section \<open>The query runner of db.py\<close>

text \<open>
  The script db.py has one function, \<open>main\<close>: it reads two environment variables, parses
  four command-line options, opens a MongoDB client, runs one \<open>find\<close> and prints every
  document of the cursor. The model below follows \<open>main\<close> line by line. What \<open>main\<close>
  takes from outside is made an argument: the environment, the command line as argparse
  classifies it, the contents of the store, and the two tables of the Python runtime that
  the source does not carry (the Unicode uppercase mapping beyond ASCII and the \<open>str()\<close> of
  values that are not modelled one by one). What \<open>main\<close> does to the outside is returned:
  the exit status, the message on standard error, the calls made to the driver and the
  documents handed to \<open>print\<close>. The driver's calls are taken to succeed.
\<close>

subsection \<open>Python text\<close>

text \<open>
  A Python \<open>str\<close> is a sequence of Unicode code points, so it is a list of naturals here;
  \<open>lit\<close> turns an ASCII literal of the source into such a list.
\<close>

type_synonym pystr = "nat list"

definition lit :: "string \<Rightarrow> pystr" where
  "lit s = map of_char s"

text \<open>
  \<open>str.strip()\<close> without argument removes leading and trailing white space; the white-space
  code points are those of CPython's \<open>_PyUnicode_IsWhitespace\<close>.
\<close>

definition py_isspace :: "nat \<Rightarrow> bool" where
  "py_isspace c =
     ((9 \<le> c \<and> c \<le> 13) \<or> (28 \<le> c \<and> c \<le> 32) \<or> c = 133 \<or> c = 160 \<or> c = 5760
      \<or> (8192 \<le> c \<and> c \<le> 8202) \<or> c = 8232 \<or> c = 8233 \<or> c = 8239 \<or> c = 8287
      \<or> c = 12288)"

definition py_strip :: "pystr \<Rightarrow> pystr" where
  "py_strip s = rev (dropWhile py_isspace (rev (dropWhile py_isspace s)))"

text \<open>
  \<open>str.upper()\<close> maps every code point through the full uppercase mapping of the Unicode
  database, which may give several code points. On ASCII the mapping is fixed (a to z go to
  A to Z); beyond ASCII it is the table \<open>upper_full\<close> of the runtime.
\<close>

definition ascii_upper :: "nat \<Rightarrow> nat" where
  "ascii_upper c = (if 97 \<le> c \<and> c \<le> 122 then c - 32 else c)"

definition ascii_lower :: "nat \<Rightarrow> nat" where
  "ascii_lower c = (if 65 \<le> c \<and> c \<le> 90 then c + 32 else c)"

subsection \<open>Values and documents\<close>

text \<open>
  The values of a document's fields, as pymongo decodes them: text, integers, booleans,
  \<open>None\<close>, an ObjectId (twelve bytes), and any other scalar (a float, a date, ...), kept
  opaque in \<open>POther\<close>. A document is a Python \<open>dict\<close>: an association list in insertion
  order.
\<close>

datatype 'a pyvalue =
    PStr pystr
  | PInt int
  | PBool bool
  | PNone
  | PObjectId "8 word list"
  | POther 'a

type_synonym 'a document = "(pystr \<times> 'a pyvalue) list"

record 'a runtime =
  upper_full :: "nat \<Rightarrow> pystr"
  str_other :: "'a \<Rightarrow> pystr"

definition py_upper :: "'a runtime \<Rightarrow> pystr \<Rightarrow> pystr" where
  "py_upper rt s = concat (map (\<lambda>c. if c < 128 then [ascii_upper c] else upper_full rt c) s)"

text \<open>The decimal digits of a natural number, and the two hexadecimal digits of a byte.\<close>

fun dec_digits :: "nat \<Rightarrow> pystr" where
  "dec_digits n = (if n < 10 then [48 + n] else dec_digits (n div 10) @ [48 + n mod 10])"

declare dec_digits.simps [simp del]

definition hex_digit :: "nat \<Rightarrow> nat" where
  "hex_digit d = (if d < 10 then 48 + d else 87 + d)"

definition hex_byte :: "8 word \<Rightarrow> pystr" where
  "hex_byte b = [hex_digit (unat b div 16), hex_digit (unat b mod 16)]"

text \<open>Python's \<open>str(v)\<close>.\<close>

fun py_str :: "'a runtime \<Rightarrow> 'a pyvalue \<Rightarrow> pystr" where
  "py_str rt (PStr s) = s"
| "py_str rt (PInt i) = (if i < 0 then 45 # dec_digits (nat (- i)) else dec_digits (nat i))"
| "py_str rt (PBool b) = (if b then lit ''True'' else lit ''False'')"
| "py_str rt PNone = lit ''None''"
| "py_str rt (PObjectId bs) = concat (map hex_byte bs)"
| "py_str rt (POther x) = str_other rt x"

text \<open>
  \<open>k in d\<close> and \<open>d[k]\<close> read the association list; \<open>d[k] = v\<close> replaces the value of a
  key that is present, where it stands, and appends a key that is absent.
\<close>

definition dict_get :: "'a document \<Rightarrow> pystr \<Rightarrow> 'a pyvalue option" where
  "dict_get d k = map_of d k"

primrec dict_setitem :: "'a document \<Rightarrow> pystr \<Rightarrow> 'a pyvalue \<Rightarrow> 'a document" where
  "dict_setitem [] k v = [(k, v)]"
| "dict_setitem (p # ps) k v = (if fst p = k then (k, v) # ps else p # dict_setitem ps k v)"

subsection \<open>The environment and the command line\<close>

text \<open>\<open>os.getenv\<close> gives \<open>None\<close> for a variable that is not set.\<close>

record environ =
  MONGODB_URI :: "pystr option"
  MONGODB_DB :: "pystr option"

text \<open>
  The options as they stand on the command line, \<open>None\<close> for a flag that is absent;
  \<open>opt_limit\<close> is the integer that \<open>type=int\<close> made of the text. Besides a list of options
  that it accepts, argparse knows two more kinds of command line, on which \<open>parse_args\<close>
  does not return: a request for help (\<open>-h\<close>, \<open>--help\<close>: the parser of line 7 is built with
  the default \<open>add_help\<close>), answered on standard output with exit status 0, and a command
  line that it rejects, answered on standard error with exit status 2.
\<close>

record options =
  opt_db_name :: "pystr option"
  opt_collection :: "pystr option"
  opt_symbol :: "pystr option"
  opt_limit :: "int option"

datatype cmdline =
    Options options
  | Help_Request
  | Usage_Error pystr

record args =
  db_name :: pystr
  collection :: pystr
  symbol :: "pystr option"
  limit :: "int option"

text \<open>The \<open>default=\<close> of \<open>--db-name\<close>: \<open>os.getenv("MONGODB_DB") or "TradingApp"\<close>.\<close>

definition default_db_name :: "environ \<Rightarrow> pystr" where
  "default_db_name env =
     (case MONGODB_DB env of
        None \<Rightarrow> lit ''TradingApp''
      | Some v \<Rightarrow> if v = [] then lit ''TradingApp'' else v)"

text \<open>
  Lines 7 to 29. The left summand is a \<open>SystemExit\<close> raised inside \<open>parse_args\<close>: its status
  and what went to standard error.
\<close>

definition parse_args :: "environ \<Rightarrow> cmdline \<Rightarrow> (int \<times> pystr option) + args" where
  "parse_args env cl =
     (case cl of
        Help_Request \<Rightarrow> Inl (0, None)
      | Usage_Error m \<Rightarrow> Inl (2, Some m)
      | Options opts \<Rightarrow>
          Inr \<lparr>db_name = (case opt_db_name opts of None \<Rightarrow> default_db_name env | Some v \<Rightarrow> v),
               collection =
                 (case opt_collection opts of None \<Rightarrow> lit ''HistoricalData'' | Some v \<Rightarrow> v),
               symbol = opt_symbol opts,
               limit = opt_limit opts\<rparr>)"

subsection \<open>The store\<close>

text \<open>
  The store is what the driver reaches: for a connection string, a database name and a
  collection name, the documents of that collection in the store's own order. \<open>find\<close>
  with a filter gives the documents that carry every field of the filter with the filter's
  value, in that order (the driver's equality match on scalar fields); \<open>limit n\<close> with a
  positive \<open>n\<close> keeps the first \<open>n\<close> of them.
\<close>

type_synonym 'a store = "pystr \<Rightarrow> pystr \<Rightarrow> pystr \<Rightarrow> 'a document list"

definition matches :: "'a document \<Rightarrow> 'a document \<Rightarrow> bool" where
  "matches q d = list_all (\<lambda>kv. dict_get d (fst kv) = Some (snd kv)) q"

definition find_docs :: "'a store \<Rightarrow> pystr \<Rightarrow> pystr \<Rightarrow> pystr \<Rightarrow> 'a document \<Rightarrow> 'a document list"
  where
  "find_docs st uri db col q = filter (matches q) (st uri db col)"

definition cursor_limit :: "int \<Rightarrow> 'a document list \<Rightarrow> 'a document list" where
  "cursor_limit n cur = take (nat n) cur"

datatype 'a driver_call =
    MongoClient pystr
  | Find pystr pystr "'a document"
  | Limit int

subsection \<open>main\<close>

record 'a outcome =
  exit_status :: int
  stderr :: "pystr option"
  driver_calls :: "'a driver_call list"
  printed :: "'a document list"

text \<open>Lines 39 to 41: \<open>if args.symbol:\<close> is false for \<open>None\<close> and for the empty text.\<close>

definition build_query :: "'a runtime \<Rightarrow> args \<Rightarrow> 'a document" where
  "build_query rt a =
     (case symbol a of
        None \<Rightarrow> []
      | Some s \<Rightarrow>
          if s = [] then []
          else dict_setitem [] (lit ''symbol'') (PStr (py_upper rt (py_strip s))))"

text \<open>
  The guard of line 44: \<open>args.limit and args.limit > 0\<close> is false for \<open>None\<close> and for
  0, and then asks for a positive number. The result is the number that line 45 passes to
  \<open>cursor.limit\<close>, if any.
\<close>

definition limit_wanted :: "int option \<Rightarrow> int option" where
  "limit_wanted l =
     (case l of
        None \<Rightarrow> None
      | Some n \<Rightarrow> if n \<noteq> 0 \<and> n > 0 then Some n else None)"

text \<open>Lines 48 and 49, on one document.\<close>

definition convert_id :: "'a runtime \<Rightarrow> 'a document \<Rightarrow> 'a document" where
  "convert_id rt d =
     (case dict_get d (lit ''_id'') of
        None \<Rightarrow> d
      | Some v \<Rightarrow> dict_setitem d (lit ''_id'') (PStr (py_str rt v)))"

text \<open>The loop of lines 47 to 50: the documents handed to \<open>print\<close>, in order.\<close>

primrec print_documents :: "'a runtime \<Rightarrow> 'a document list \<Rightarrow> 'a document list" where
  "print_documents rt [] = []"
| "print_documents rt (d # ds) = convert_id rt d # print_documents rt ds"

text \<open>Lines 43 to 45: the cursor that the loop iterates.\<close>

definition result_sequence :: "'a runtime \<Rightarrow> args \<Rightarrow> pystr \<Rightarrow> 'a store \<Rightarrow> 'a document list" where
  "result_sequence rt a uri st =
     (let cursor = find_docs st uri (db_name a) (collection a) (build_query rt a)
      in case limit_wanted (limit a) of
           None \<Rightarrow> cursor
         | Some n \<Rightarrow> cursor_limit n cursor)"

text \<open>Lines 35 to 50, once the connection string is there.\<close>

definition run_query :: "'a runtime \<Rightarrow> args \<Rightarrow> pystr \<Rightarrow> 'a store \<Rightarrow> 'a outcome" where
  "run_query rt a uri st =
     \<lparr>exit_status = 0, stderr = None,
      driver_calls =
        [MongoClient uri, Find (db_name a) (collection a) (build_query rt a)]
        @ (case limit_wanted (limit a) of None \<Rightarrow> [] | Some n \<Rightarrow> [Limit n]),
      printed = print_documents rt (result_sequence rt a uri st)\<rparr>"

text \<open>
  Line 33: \<open>raise SystemExit(message)\<close> writes the message to standard error and ends the
  process with status 1.
\<close>

definition uri_not_set :: "'a outcome" where
  "uri_not_set =
     \<lparr>exit_status = 1, stderr = Some (lit ''MONGODB_URI environment variable is not set.''),
      driver_calls = [], printed = []\<rparr>"

definition main :: "'a runtime \<Rightarrow> environ \<Rightarrow> cmdline \<Rightarrow> 'a store \<Rightarrow> 'a outcome" where
  "main rt env cl st =
     (case parse_args env cl of
        Inl ex \<Rightarrow> \<lparr>exit_status = fst ex, stderr = snd ex, driver_calls = [], printed = []\<rparr>
      | Inr a \<Rightarrow>
          (case MONGODB_URI env of
             None \<Rightarrow> uri_not_set
           | Some uri \<Rightarrow> if uri = [] then uri_not_set else run_query rt a uri st))"

text \<open>The filters that went to the store, read off the calls.\<close>

primrec sent_filters :: "'a driver_call list \<Rightarrow> 'a document list" where
  "sent_filters [] = []"
| "sent_filters (c # cs) =
     (case c of Find db col q \<Rightarrow> q # sent_filters cs | _ \<Rightarrow> sent_filters cs)"

subsection \<open>Concrete inputs\<close>

text \<open>
  A runtime whose table beyond ASCII changes nothing, and a store with two documents in
  the collection HistoricalData of the database TradingApp and none elsewhere.
\<close>

definition plain_runtime :: "unit runtime" where
  "plain_runtime = \<lparr>upper_full = (\<lambda>c. [c]), str_other = (\<lambda>u. [])\<rparr>"

definition doc_aapl :: "unit document" where
  "doc_aapl =
     [(lit ''_id'', PObjectId [0x65, 0x4f, 0x1a, 0x2b, 0x3c, 0x4d, 0x5e, 0x6f, 0x70, 0x81, 0x92, 0xa3]),
      (lit ''symbol'', PStr (lit ''AAPL'')), (lit ''price'', PInt 1)]"

definition doc_msft :: "unit document" where
  "doc_msft = [(lit ''symbol'', PStr (lit ''MSFT'')), (lit ''price'', PInt 2)]"

definition two_docs :: "unit store" where
  "two_docs uri db col =
     (if db = lit ''TradingApp'' \<and> col = lit ''HistoricalData'' then [doc_aapl, doc_msft]
      else [])"

definition env_uri :: environ where
  "env_uri = \<lparr>MONGODB_URI = Some (lit ''mongodb://localhost''), MONGODB_DB = None\<rparr>"

definition env_uri_db :: environ where
  "env_uri_db =
     \<lparr>MONGODB_URI = Some (lit ''mongodb://localhost''), MONGODB_DB = Some (lit ''Research'')\<rparr>"

definition env_no_uri :: environ where
  "env_no_uri = \<lparr>MONGODB_URI = None, MONGODB_DB = None\<rparr>"

definition no_options :: options where
  "no_options = \<lparr>opt_db_name = None, opt_collection = None, opt_symbol = None, opt_limit = None\<rparr>"

section \<open>Properties\<close>

subsection \<open>The steps of main\<close>

lemma print_documents_map: "print_documents rt ds = map (convert_id rt) ds"
  by (induction ds) simp_all

lemma parse_args_Options:
  "parse_args env (Options opts) =
     Inr \<lparr>db_name = (case opt_db_name opts of None \<Rightarrow> default_db_name env | Some v \<Rightarrow> v),
          collection = (case opt_collection opts of None \<Rightarrow> lit ''HistoricalData'' | Some v \<Rightarrow> v),
          symbol = opt_symbol opts, limit = opt_limit opts\<rparr>"
  by (simp add: parse_args_def)

lemma main_with_uri:
  "parse_args env cl = Inr a \<Longrightarrow> MONGODB_URI env = Some uri \<Longrightarrow> uri \<noteq> [] \<Longrightarrow>
     main rt env cl st = run_query rt a uri st"
  by (simp add: main_def)

lemma main_without_uri:
  "parse_args env cl = Inr a \<Longrightarrow> MONGODB_URI env = None \<or> MONGODB_URI env = Some [] \<Longrightarrow>
     main rt env cl st = uri_not_set"
  by (auto simp: main_def)

lemma sent_filters_run_query:
  "sent_filters (driver_calls (run_query rt a uri st)) = [build_query rt a]"
  by (simp add: run_query_def split: option.splits)

lemma dict_get_setitem:
  "dict_get (dict_setitem d k v) k' = (if k' = k then Some v else dict_get d k')"
  by (induction d) (auto simp: dict_get_def)

lemma length_setitem_present:
  "dict_get d k = Some w \<Longrightarrow> length (dict_setitem d k v) = length d"
  by (induction d) (auto simp: dict_get_def split: if_splits)

lemma nth_setitem_other:
  "i < length d \<Longrightarrow> fst (d ! i) \<noteq> k \<Longrightarrow> dict_setitem d k v ! i = d ! i"
proof (induction d arbitrary: i)
  case Nil
  then show ?case by simp
next
  case (Cons p ps)
  then show ?case by (cases i) auto
qed

subsection \<open>strip and upper\<close>

lemma dropWhile_blank_prefix: "list_all P l \<Longrightarrow> dropWhile P (l @ xs) = dropWhile P xs"
  by (induction l) simp_all

lemma dropWhile_keeps: "xs \<noteq> [] \<Longrightarrow> \<not> P (hd xs) \<Longrightarrow> dropWhile P xs = xs"
  by (cases xs) simp_all

lemma py_strip_padded:
  assumes "list_all py_isspace l" "list_all py_isspace r" "f \<noteq> []"
    "\<not> py_isspace (hd f)" "\<not> py_isspace (last f)"
  shows "py_strip (l @ f @ r) = f"
proof -
  have "f @ r \<noteq> []" "\<not> py_isspace (hd (f @ r))"
    using assms(3,4) by simp_all
  then have left: "dropWhile py_isspace (l @ f @ r) = f @ r"
    using assms(1) by (simp add: dropWhile_blank_prefix dropWhile_keeps)
  have blank: "list_all py_isspace (rev r)"
    using assms(2) by (simp add: list_all_iff)
  have "rev f \<noteq> []" "\<not> py_isspace (hd (rev f))"
    using assms(3,5) by (simp_all add: hd_rev)
  then have "dropWhile py_isspace (rev f) = rev f"
    by (rule dropWhile_keeps)
  then have "dropWhile py_isspace (rev r @ rev f) = rev f"
    using blank by (simp add: dropWhile_blank_prefix)
  then show ?thesis by (simp add: py_strip_def left)
qed

lemma dropWhile_blank: "list_all P s \<Longrightarrow> dropWhile P s = []"
  by (induction s) simp_all

lemma py_strip_blank: "list_all py_isspace s \<Longrightarrow> py_strip s = []"
  by (simp add: py_strip_def dropWhile_blank)

lemma ascii_lower_f: "ascii_lower c = 102 \<Longrightarrow> c = 70 \<or> c = 102"
  by (auto simp: ascii_lower_def split: if_splits)

lemma ascii_lower_o: "ascii_lower c = 111 \<Longrightarrow> c = 79 \<or> c = 111"
  by (auto simp: ascii_lower_def split: if_splits)

lemma lit_foo: "lit ''foo'' = [102, 111, 111]" "lit ''FOO'' = [70, 79, 79]"
  by (simp_all add: lit_def)

lemma foo_casing:
  assumes "map ascii_lower f = lit ''foo''"
  shows "f \<noteq> [] \<and> \<not> py_isspace (hd f) \<and> \<not> py_isspace (last f) \<and> py_upper rt f = lit ''FOO''"
proof -
  from assms have "map ascii_lower f = [102, 111, 111]" by (simp add: lit_foo)
  then obtain a b c where f: "f = [a, b, c]"
    and a: "ascii_lower a = 102" and b: "ascii_lower b = 111" and c: "ascii_lower c = 111"
    by (auto simp: map_eq_Cons_conv)
  have a': "a = 70 \<or> a = 102" using a by (rule ascii_lower_f)
  have b': "b = 79 \<or> b = 111" using b by (rule ascii_lower_o)
  have c': "c = 79 \<or> c = 111" using c by (rule ascii_lower_o)
  have sp: "\<not> py_isspace a" "\<not> py_isspace c"
    using a' c' by (auto simp: py_isspace_def)
  have up: "ascii_upper a = 70" "ascii_upper b = 79" "ascii_upper c = 79" "a < 128" "b < 128" "c < 128"
    using a' b' c' by (auto simp: ascii_upper_def)
  show ?thesis
    unfolding f using sp up by (simp add: py_upper_def lit_foo)
qed

subsection \<open>Unfolding the model on concrete inputs\<close>

lemmas run_defs = main_def parse_args_def env_uri_def env_no_uri_def no_options_def run_query_def
  result_sequence_def limit_wanted_def find_docs_def two_docs_def default_db_name_def
  build_query_def py_strip_def py_isspace_def py_upper_def ascii_upper_def ascii_lower_def
  plain_runtime_def lit_def matches_def dict_get_def doc_aapl_def doc_msft_def convert_id_def
  hex_byte_def hex_digit_def cursor_limit_def uri_not_set_def

subsection \<open>The claims\<close>

text \<open>
  C1, as amended. With \<open>MONGODB_URI\<close> unset or empty, no invocation calls the driver or
  prints a document. Every invocation other than a request for help ends with a non-zero
  exit status and a message on standard error; when the options parse, the status is 1 and
  the message is the one of line 33.
\<close>

theorem missing_uri_outcome:
  assumes "MONGODB_URI env = None \<or> MONGODB_URI env = Some []"
  shows "driver_calls (main rt env cl st) = [] \<and> printed (main rt env cl st) = []
     \<and> (cl \<noteq> Help_Request \<longrightarrow>
          exit_status (main rt env cl st) \<noteq> 0 \<and> stderr (main rt env cl st) \<noteq> None)
     \<and> (cl = Options opts \<longrightarrow>
          exit_status (main rt env cl st) = 1
          \<and> stderr (main rt env cl st)
              = Some (lit ''MONGODB_URI environment variable is not set.''))"
proof (cases cl)
  case (Options x)
  have "main rt env cl st = uri_not_set"
    unfolding Options using parse_args_Options assms by (rule main_without_uri)
  then show ?thesis by (auto simp: uri_not_set_def Options)
next
  case Help_Request
  then show ?thesis by (simp add: main_def parse_args_def)
next
  case (Usage_Error m)
  then show ?thesis by (simp add: main_def parse_args_def)
qed

text \<open>The same at a concrete invocation: no options, \<open>MONGODB_URI\<close> unset.\<close>

theorem missing_uri_outcome_witness:
  "(MONGODB_URI env_no_uri = None \<or> MONGODB_URI env_no_uri = Some [])
   \<and> Options no_options \<noteq> Help_Request
   \<and> driver_calls (main plain_runtime env_no_uri (Options no_options) two_docs) = []
   \<and> printed (main plain_runtime env_no_uri (Options no_options) two_docs) = []
   \<and> exit_status (main plain_runtime env_no_uri (Options no_options) two_docs) = 1
   \<and> stderr (main plain_runtime env_no_uri (Options no_options) two_docs)
       = Some (lit ''MONGODB_URI environment variable is not set.'')"
  using missing_uri_outcome [where env = env_no_uri and rt = plain_runtime
      and cl = "Options no_options" and st = two_docs and opts = no_options]
  by (simp add: env_no_uri_def)

text \<open>
  C1 as stated fails for a request for help: \<open>parse_args\<close> (line 29) runs before the
  check of line 32 and ends the process with status 0.
\<close>

theorem help_without_uri_exits_zero:
  "MONGODB_URI env_no_uri = None
   \<and> \<not> exit_status (main plain_runtime env_no_uri Help_Request two_docs) \<noteq> 0"
  by (simp add: main_def parse_args_def env_no_uri_def)

text \<open>
  C2 as stated fails for \<open>--symbol\<close> with the empty text as its value: the guard of line
  40 is false, and the filter sent is empty, not \<open>{"symbol": ""}\<close>.
\<close>

theorem empty_symbol_sends_empty_filter:
  "opt_symbol (no_options\<lparr>opt_symbol := Some []\<rparr>) = Some []
   \<and> sent_filters (driver_calls
        (main plain_runtime env_uri (Options (no_options\<lparr>opt_symbol := Some []\<rparr>)) two_docs))
      \<noteq> [[(lit ''symbol'', PStr (py_upper plain_runtime (py_strip [])))]]"
  by (simp add: run_defs)

text \<open>
  C2, as amended. When \<open>--symbol\<close> is given a non-empty value \<open>s\<close> (and the connection
  string is set, so that a query is sent), the one filter sent to the store is
  \<open>{"symbol": upper(strip(s))}\<close>; for \<open>s\<close> any casing of foo between any white space, that
  is \<open>{"symbol": "FOO"}\<close>.
\<close>

theorem symbol_filter_normalised:
  assumes "opt_symbol opts = Some s" and "s \<noteq> []"
    and "MONGODB_URI env = Some uri" and "uri \<noteq> []"
  shows "sent_filters (driver_calls (main rt env (Options opts) st))
           = [[(lit ''symbol'', PStr (py_upper rt (py_strip s)))]]
     \<and> (s = l @ f @ r \<and> list_all py_isspace l \<and> list_all py_isspace r
          \<and> map ascii_lower f = lit ''foo'' \<longrightarrow>
        sent_filters (driver_calls (main rt env (Options opts) st))
           = [[(lit ''symbol'', PStr (lit ''FOO''))]])"
proof -
  let ?a = "\<lparr>db_name = (case opt_db_name opts of None \<Rightarrow> default_db_name env | Some v \<Rightarrow> v),
          collection = (case opt_collection opts of None \<Rightarrow> lit ''HistoricalData'' | Some v \<Rightarrow> v),
          symbol = opt_symbol opts, limit = opt_limit opts\<rparr>"
  have "main rt env (Options opts) st = run_query rt ?a uri st"
    using parse_args_Options assms(3,4) by (rule main_with_uri)
  then have sent: "sent_filters (driver_calls (main rt env (Options opts) st))
      = [[(lit ''symbol'', PStr (py_upper rt (py_strip s)))]]"
    using assms(1,2) by (simp add: sent_filters_run_query build_query_def)
  have "py_upper rt (py_strip s) = lit ''FOO''"
    if "s = l @ f @ r" "list_all py_isspace l" "list_all py_isspace r"
      "map ascii_lower f = lit ''foo''"
  proof -
    from foo_casing [OF that(4), of rt]
    have f: "f \<noteq> []" "\<not> py_isspace (hd f)" "\<not> py_isspace (last f)" "py_upper rt f = lit ''FOO''"
      by simp_all
    have "py_strip s = f"
      unfolding that(1) using that(2,3) f(1,2,3) by (rule py_strip_padded)
    then show ?thesis using f(4) by simp
  qed
  then show ?thesis using sent by simp
qed

text \<open>The same at \<open>--symbol " fOo "\<close>.\<close>

theorem symbol_filter_normalised_witness:
  "opt_symbol (no_options\<lparr>opt_symbol := Some (lit '' fOo '')\<rparr>) = Some (lit '' fOo '')
   \<and> lit '' fOo '' \<noteq> []
   \<and> MONGODB_URI env_uri = Some (lit ''mongodb://localhost'') \<and> lit ''mongodb://localhost'' \<noteq> []
   \<and> lit '' fOo '' = [32] @ lit ''fOo'' @ [32]
   \<and> list_all py_isspace [32] \<and> map ascii_lower (lit ''fOo'') = lit ''foo''
   \<and> sent_filters (driver_calls (main plain_runtime env_uri
          (Options (no_options\<lparr>opt_symbol := Some (lit '' fOo '')\<rparr>)) two_docs))
        = [[(lit ''symbol'', PStr (lit ''FOO''))]]"
proof -
  have h1: "opt_symbol (no_options\<lparr>opt_symbol := Some (lit '' fOo '')\<rparr>) = Some (lit '' fOo '')"
    by simp
  have h2: "lit '' fOo '' \<noteq> []"
    by (simp add: lit_def)
  have h3: "MONGODB_URI env_uri = Some (lit ''mongodb://localhost'')"
    by (simp add: env_uri_def)
  have h4: "lit ''mongodb://localhost'' \<noteq> []"
    by (simp add: lit_def)
  have dec: "lit '' fOo '' = [32] @ lit ''fOo'' @ [32] \<and> list_all py_isspace [32]
      \<and> list_all py_isspace [32] \<and> map ascii_lower (lit ''fOo'') = lit ''foo''"
    by (simp add: lit_def py_isspace_def ascii_lower_def)
  have "sent_filters (driver_calls (main plain_runtime env_uri
          (Options (no_options\<lparr>opt_symbol := Some (lit '' fOo '')\<rparr>)) two_docs))
        = [[(lit ''symbol'', PStr (lit ''FOO''))]]"
    using symbol_filter_normalised [where rt = plain_runtime and st = two_docs, OF h1 h2 h3 h4]
      dec by blast
  then show ?thesis using h1 h2 h3 h4 dec by blast
qed

lemma parse_args_limit_None:
  "parse_args env (Options opts) = Inr a \<Longrightarrow>
     parse_args env (Options (opts\<lparr>opt_limit := None\<rparr>)) = Inr (a\<lparr>limit := None\<rparr>)"
  by (auto simp: parse_args_def)

lemma printed_run_query:
  "printed (run_query rt a uri st) = map (convert_id rt) (result_sequence rt a uri st)"
  by (simp add: run_query_def print_documents_map)

lemma result_sequence_limited:
  "limit a = Some n \<Longrightarrow> 0 < n \<Longrightarrow>
     result_sequence rt a uri st = take (nat n) (result_sequence rt (a\<lparr>limit := None\<rparr>) uri st)"
  by (simp add: result_sequence_def limit_wanted_def cursor_limit_def find_docs_def build_query_def)

lemma result_sequence_unlimited:
  "limit_wanted (limit a) = None \<Longrightarrow>
     result_sequence rt a uri st
       = filter (matches (build_query rt a)) (st uri (db_name a) (collection a))"
  by (simp add: result_sequence_def find_docs_def)

lemma run_query_limit_ignored:
  "limit a = Some n \<Longrightarrow> n \<le> 0 \<Longrightarrow> run_query rt a uri st = run_query rt (a\<lparr>limit := None\<rparr>) uri st"
  by (simp add: run_query_def result_sequence_def limit_wanted_def find_docs_def build_query_def)

lemma uri_cases:
  obtains (no_uri) "MONGODB_URI env = None \<or> MONGODB_URI env = Some []"
    | (uri) u where "MONGODB_URI env = Some u" "u \<noteq> []"
  by (cases "MONGODB_URI env") auto

text \<open>
  C3. When \<open>--limit\<close> is given a positive integer \<open>n\<close>, at most \<open>n\<close> documents are
  printed: what is printed is the first \<open>n\<close> of what the same invocation prints without
  \<open>--limit\<close>.
\<close>

theorem positive_limit_truncates:
  assumes "opt_limit opts = Some n" and "0 < n"
  shows "int (length (printed (main rt env (Options opts) st))) \<le> n
     \<and> printed (main rt env (Options opts) st)
         = take (nat n) (printed (main rt env (Options (opts\<lparr>opt_limit := None\<rparr>)) st))"
proof -
  obtain a where a: "parse_args env (Options opts) = Inr a" and l: "limit a = Some n"
    using assms(1) by (simp add: parse_args_def)
  have a': "parse_args env (Options (opts\<lparr>opt_limit := None\<rparr>)) = Inr (a\<lparr>limit := None\<rparr>)"
    using a by (rule parse_args_limit_None)
  have eq: "printed (main rt env (Options opts) st)
         = take (nat n) (printed (main rt env (Options (opts\<lparr>opt_limit := None\<rparr>)) st))"
  proof (cases env rule: uri_cases)
    case no_uri
    then show ?thesis
      using main_without_uri [OF a no_uri, of rt st] main_without_uri [OF a' no_uri, of rt st]
      by (simp add: uri_not_set_def)
  next
    case (uri u)
    then show ?thesis
      using main_with_uri [OF a uri, of rt st] main_with_uri [OF a' uri, of rt st]
      by (simp add: printed_run_query result_sequence_limited [OF l assms(2)] take_map)
  qed
  have "length (printed (main rt env (Options opts) st)) \<le> nat n"
    by (subst eq) simp
  then show ?thesis using eq assms(2) by linarith
qed

text \<open>
  The same at \<open>--limit 1\<close> on the store of two documents.
\<close>

theorem positive_limit_truncates_witness:
  "opt_limit (no_options\<lparr>opt_limit := Some 1\<rparr>) = Some 1 \<and> (0::int) < 1
   \<and> int (length (printed (main plain_runtime env_uri
        (Options (no_options\<lparr>opt_limit := Some 1\<rparr>)) two_docs))) \<le> 1
   \<and> length (printed (main plain_runtime env_uri
        (Options (no_options\<lparr>opt_limit := None\<rparr>)) two_docs)) = 2"
proof -
  have h1: "opt_limit (no_options\<lparr>opt_limit := Some 1\<rparr>) = Some 1" by simp
  have h2: "(0::int) < 1" by simp
  have two: "length (printed (main plain_runtime env_uri
        (Options (no_options\<lparr>opt_limit := None\<rparr>)) two_docs)) = 2"
    by (simp add: main_def parse_args_def env_uri_def no_options_def run_query_def
        result_sequence_def limit_wanted_def find_docs_def two_docs_def default_db_name_def
        build_query_def matches_def lit_def print_documents_map)
  show ?thesis
    using positive_limit_truncates [where rt = plain_runtime and env = env_uri
        and st = two_docs, OF h1 h2] h1 h2 two by blast
qed

text \<open>
  C4. When \<open>--limit\<close> is given 0 or a negative integer, the whole outcome (status,
  message, driver calls, printed documents) is that of the same invocation without
  \<open>--limit\<close>, and with the connection string set every document of the collection that
  matches the filter is printed.
\<close>

theorem nonpositive_limit_ignored:
  assumes "opt_limit opts = Some n" and "n \<le> 0"
  shows "main rt env (Options opts) st = main rt env (Options (opts\<lparr>opt_limit := None\<rparr>)) st
     \<and> (parse_args env (Options opts) = Inr a \<and> MONGODB_URI env = Some uri \<and> uri \<noteq> [] \<longrightarrow>
          printed (main rt env (Options opts) st)
            = map (convert_id rt)
                (filter (matches (build_query rt a)) (st uri (db_name a) (collection a))))"
proof -
  obtain b where b: "parse_args env (Options opts) = Inr b" and l: "limit b = Some n"
    using assms(1) by (simp add: parse_args_def)
  have b': "parse_args env (Options (opts\<lparr>opt_limit := None\<rparr>)) = Inr (b\<lparr>limit := None\<rparr>)"
    using b by (rule parse_args_limit_None)
  have same: "main rt env (Options opts) st
      = main rt env (Options (opts\<lparr>opt_limit := None\<rparr>)) st"
  proof (cases env rule: uri_cases)
    case no_uri
    then show ?thesis
      using main_without_uri [OF b no_uri, of rt st] main_without_uri [OF b' no_uri, of rt st]
      by simp
  next
    case (uri u)
    then show ?thesis
      using main_with_uri [OF b uri, of rt st] main_with_uri [OF b' uri, of rt st]
      by (simp add: run_query_limit_ignored [OF l assms(2)])
  qed
  have "printed (main rt env (Options opts) st)
            = map (convert_id rt)
                (filter (matches (build_query rt a)) (st uri (db_name a) (collection a)))"
    if "parse_args env (Options opts) = Inr a" "MONGODB_URI env = Some uri" "uri \<noteq> []"
  proof -
    have "limit_wanted (limit a) = None"
      using that(1) b l assms(2) by (simp add: limit_wanted_def)
    then show ?thesis
      using main_with_uri [OF that, of rt st]
      by (simp add: printed_run_query result_sequence_unlimited)
  qed
  then show ?thesis using same by blast
qed


text \<open>
  The same at \<open>--limit -3\<close> on the store of two documents.
\<close>

theorem nonpositive_limit_ignored_witness:
  "opt_limit (no_options\<lparr>opt_limit := Some (- 3)\<rparr>) = Some (- 3) \<and> (- 3 :: int) \<le> 0
   \<and> parse_args env_uri (Options (no_options\<lparr>opt_limit := Some (- 3)\<rparr>))
       = Inr \<lparr>db_name = lit ''TradingApp'', collection = lit ''HistoricalData'',
              symbol = None, limit = Some (- 3)\<rparr>
   \<and> MONGODB_URI env_uri = Some (lit ''mongodb://localhost'') \<and> lit ''mongodb://localhost'' \<noteq> []
   \<and> main plain_runtime env_uri (Options (no_options\<lparr>opt_limit := Some (- 3)\<rparr>)) two_docs
       = main plain_runtime env_uri (Options (no_options\<lparr>opt_limit := None\<rparr>)) two_docs
   \<and> printed (main plain_runtime env_uri (Options (no_options\<lparr>opt_limit := Some (- 3)\<rparr>)) two_docs)
       = map (convert_id plain_runtime) [doc_aapl, doc_msft]"
proof -
  let ?a = "\<lparr>db_name = lit ''TradingApp'', collection = lit ''HistoricalData'',
              symbol = None, limit = Some (- 3)\<rparr>"
  have h1: "opt_limit (no_options\<lparr>opt_limit := Some (- 3)\<rparr>) = Some (- 3)" by simp
  have h2: "(- 3 :: int) \<le> 0" by simp
  have h3: "parse_args env_uri (Options (no_options\<lparr>opt_limit := Some (- 3)\<rparr>)) = Inr ?a"
    by (simp add: parse_args_def no_options_def default_db_name_def env_uri_def)
  have h4: "MONGODB_URI env_uri = Some (lit ''mongodb://localhost'')"
    by (simp add: env_uri_def)
  have h5: "lit ''mongodb://localhost'' \<noteq> []"
    by (simp add: lit_def)
  have all: "filter (matches (build_query plain_runtime ?a))
        (two_docs (lit ''mongodb://localhost'') (db_name ?a) (collection ?a))
      = [doc_aapl, doc_msft]"
    by (simp add: build_query_def matches_def two_docs_def)
  have r: "main plain_runtime env_uri (Options (no_options\<lparr>opt_limit := Some (- 3)\<rparr>)) two_docs
       = main plain_runtime env_uri
           (Options (no_options\<lparr>opt_limit := Some (- 3)\<rparr>\<lparr>opt_limit := None\<rparr>)) two_docs
     \<and> (parse_args env_uri (Options (no_options\<lparr>opt_limit := Some (- 3)\<rparr>)) = Inr ?a
          \<and> MONGODB_URI env_uri = Some (lit ''mongodb://localhost'')
          \<and> lit ''mongodb://localhost'' \<noteq> [] \<longrightarrow>
        printed (main plain_runtime env_uri (Options (no_options\<lparr>opt_limit := Some (- 3)\<rparr>))
            two_docs)
          = map (convert_id plain_runtime)
              (filter (matches (build_query plain_runtime ?a))
                 (two_docs (lit ''mongodb://localhost'') (db_name ?a) (collection ?a))))"
    by (rule nonpositive_limit_ignored [OF h1 h2])
  have same: "main plain_runtime env_uri (Options (no_options\<lparr>opt_limit := Some (- 3)\<rparr>)) two_docs
       = main plain_runtime env_uri (Options (no_options\<lparr>opt_limit := None\<rparr>)) two_docs"
    using r [THEN conjunct1] by simp
  have "printed (main plain_runtime env_uri (Options (no_options\<lparr>opt_limit := Some (- 3)\<rparr>))
            two_docs)
          = map (convert_id plain_runtime)
              (filter (matches (build_query plain_runtime ?a))
                 (two_docs (lit ''mongodb://localhost'') (db_name ?a) (collection ?a)))"
    using r h3 h4 h5 by blast
  then have pr: "printed (main plain_runtime env_uri
        (Options (no_options\<lparr>opt_limit := Some (- 3)\<rparr>)) two_docs)
      = map (convert_id plain_runtime) [doc_aapl, doc_msft]"
    unfolding all .
  show ?thesis
    by (intro conjI) (fact h1 h2 h3 h4 h5 same pr)+
qed

lemma convert_id_get:
  "dict_get d (lit ''_id'') = Some v \<Longrightarrow>
     dict_get (convert_id rt d) (lit ''_id'') = Some (PStr (py_str rt v))"
  by (simp add: convert_id_def dict_get_setitem)

lemma convert_id_absent: "dict_get d (lit ''_id'') = None \<Longrightarrow> convert_id rt d = d"
  by (simp add: convert_id_def)

lemma convert_id_other_key:
  "k \<noteq> lit ''_id'' \<Longrightarrow> dict_get (convert_id rt d) k = dict_get d k"
  by (simp add: convert_id_def dict_get_setitem split: option.splits)

lemma length_convert_id: "length (convert_id rt d) = length d"
  by (simp add: convert_id_def length_setitem_present split: option.splits)

lemma nth_convert_id:
  "j < length d \<Longrightarrow> fst (d ! j) \<noteq> lit ''_id'' \<Longrightarrow> convert_id rt d ! j = d ! j"
  by (simp add: convert_id_def nth_setitem_other split: option.splits)

text \<open>
  C5. The loop prints one document for each document of the result sequence, in order;
  where the retrieved document has an \<open>_id\<close> field with value \<open>v\<close>, the printed one has
  the text \<open>str(v)\<close> there, a \<open>PStr\<close>.
\<close>

theorem id_printed_as_text:
  assumes "parse_args env cl = Inr a" and "MONGODB_URI env = Some uri" and "uri \<noteq> []"
  shows "length (printed (main rt env cl st)) = length (result_sequence rt a uri st)
     \<and> (i < length (result_sequence rt a uri st)
          \<and> dict_get (result_sequence rt a uri st ! i) (lit ''_id'') = Some v \<longrightarrow>
        dict_get (printed (main rt env cl st) ! i) (lit ''_id'') = Some (PStr (py_str rt v)))"
proof -
  have "printed (main rt env cl st) = map (convert_id rt) (result_sequence rt a uri st)"
    using main_with_uri [OF assms, of rt st] by (simp add: printed_run_query)
  then show ?thesis by (simp add: convert_id_get)
qed

lemma two_docs_all:
  "result_sequence plain_runtime
     \<lparr>db_name = lit ''TradingApp'', collection = lit ''HistoricalData'', symbol = None,
        limit = None\<rparr> u two_docs = [doc_aapl, doc_msft]"
  by (simp add: result_sequence_def limit_wanted_def find_docs_def build_query_def matches_def
      two_docs_def)

lemma parse_no_options:
  "parse_args env_uri (Options no_options)
     = Inr \<lparr>db_name = lit ''TradingApp'', collection = lit ''HistoricalData'', symbol = None,
            limit = None\<rparr>"
  by (simp add: parse_args_def no_options_def default_db_name_def env_uri_def)

lemma env_uri_set:
  "MONGODB_URI env_uri = Some (lit ''mongodb://localhost'')" "lit ''mongodb://localhost'' \<noteq> []"
  by (simp_all add: env_uri_def lit_def)

lemma aapl_id:
  "dict_get doc_aapl (lit ''_id'')
     = Some (PObjectId [0x65, 0x4f, 0x1a, 0x2b, 0x3c, 0x4d, 0x5e, 0x6f, 0x70, 0x81, 0x92, 0xa3])"
  by (simp add: doc_aapl_def dict_get_def)

lemma aapl_id_text:
  "py_str plain_runtime
     (PObjectId [0x65, 0x4f, 0x1a, 0x2b, 0x3c, 0x4d, 0x5e, 0x6f, 0x70, 0x81, 0x92, 0xa3])
     = lit ''654f1a2b3c4d5e6f708192a3''"
  by (simp add: hex_byte_def hex_digit_def lit_def)

text \<open>
  The same on the store of two documents: the ObjectId of the first is printed as its
  twenty-four hexadecimal digits.
\<close>

theorem id_printed_as_text_witness:
  "parse_args env_uri (Options no_options)
     = Inr \<lparr>db_name = lit ''TradingApp'', collection = lit ''HistoricalData'', symbol = None,
            limit = None\<rparr>
   \<and> MONGODB_URI env_uri = Some (lit ''mongodb://localhost'') \<and> lit ''mongodb://localhost'' \<noteq> []
   \<and> (0::nat) < length [doc_aapl, doc_msft]
   \<and> dict_get ([doc_aapl, doc_msft] ! 0) (lit ''_id'')
       = Some (PObjectId [0x65, 0x4f, 0x1a, 0x2b, 0x3c, 0x4d, 0x5e, 0x6f, 0x70, 0x81, 0x92, 0xa3])
   \<and> length (printed (main plain_runtime env_uri (Options no_options) two_docs)) = 2
   \<and> dict_get (printed (main plain_runtime env_uri (Options no_options) two_docs) ! 0) (lit ''_id'')
       = Some (PStr (lit ''654f1a2b3c4d5e6f708192a3''))"
proof -
  let ?a = "\<lparr>db_name = lit ''TradingApp'', collection = lit ''HistoricalData'', symbol = None,
            limit = None\<rparr>"
  let ?u = "lit ''mongodb://localhost''"
  let ?v = "PObjectId [0x65, 0x4f, 0x1a, 0x2b, 0x3c, 0x4d, 0x5e, 0x6f, 0x70, 0x81, 0x92, 0xa3]"
  let ?out = "main plain_runtime env_uri (Options no_options) two_docs"
  have r: "length (printed ?out) = length (result_sequence plain_runtime ?a ?u two_docs)
     \<and> (0 < length (result_sequence plain_runtime ?a ?u two_docs)
          \<and> dict_get (result_sequence plain_runtime ?a ?u two_docs ! 0) (lit ''_id'') = Some ?v \<longrightarrow>
        dict_get (printed ?out ! 0) (lit ''_id'') = Some (PStr (py_str plain_runtime ?v)))"
    by (rule id_printed_as_text [OF parse_no_options env_uri_set])
  have c1: "(0::nat) < length [doc_aapl, doc_msft]" by simp
  have c2: "dict_get ([doc_aapl, doc_msft] ! 0) (lit ''_id'') = Some ?v"
    using aapl_id by simp
  have c3: "length (printed ?out) = 2"
    using r [THEN conjunct1] unfolding two_docs_all by simp
  have "dict_get (printed ?out ! 0) (lit ''_id'') = Some (PStr (py_str plain_runtime ?v))"
    using r [THEN conjunct2] c1 c2 unfolding two_docs_all by blast
  then have c4: "dict_get (printed ?out ! 0) (lit ''_id'')
      = Some (PStr (lit ''654f1a2b3c4d5e6f708192a3''))"
    unfolding aapl_id_text .
  show ?thesis
    by (intro conjI) (fact parse_no_options env_uri_set c1 c2 c3 c4)+
qed

lemma sent_filters_main:
  assumes "MONGODB_URI env = Some uri" and "uri \<noteq> []"
  shows "sent_filters (driver_calls (main rt env (Options opts) st))
     = [case opt_symbol opts of
          None \<Rightarrow> []
        | Some s \<Rightarrow> if s = [] then [] else [(lit ''symbol'', PStr (py_upper rt (py_strip s)))]]"
  using main_with_uri [OF parse_args_Options assms, where rt = rt and st = st and opts1 = opts]
  by (simp add: sent_filters_run_query build_query_def split: option.splits)

text \<open>
  C6. Without \<open>--symbol\<close> (and with the connection string set, so that a query is
  sent), the one filter sent to the store is the empty mapping; the empty mapping matches
  every document, so \<open>find\<close> with it gives the whole collection.
\<close>

theorem absent_symbol_empty_filter:
  assumes "opt_symbol opts = None" and "MONGODB_URI env = Some uri" and "uri \<noteq> []"
  shows "sent_filters (driver_calls (main rt env (Options opts) st)) = [[]]
     \<and> matches [] d
     \<and> find_docs st uri db col [] = st uri db col"
  using assms(1) by (simp add: sent_filters_main [OF assms(2,3)] matches_def find_docs_def)

text \<open>
  The same with no options on the store of two documents.
\<close>

theorem absent_symbol_empty_filter_witness:
  "opt_symbol no_options = None
   \<and> MONGODB_URI env_uri = Some (lit ''mongodb://localhost'') \<and> lit ''mongodb://localhost'' \<noteq> []
   \<and> sent_filters (driver_calls (main plain_runtime env_uri (Options no_options) two_docs)) = [[]]
   \<and> matches [] doc_msft
   \<and> find_docs two_docs (lit ''mongodb://localhost'') (lit ''TradingApp'') (lit ''HistoricalData'') []
       = [doc_aapl, doc_msft]"
proof -
  have h1: "opt_symbol no_options = None" by (simp add: no_options_def)
  have r: "sent_filters (driver_calls (main plain_runtime env_uri (Options no_options) two_docs))
        = [[]]
     \<and> matches [] doc_msft
     \<and> find_docs two_docs (lit ''mongodb://localhost'') (lit ''TradingApp'')
         (lit ''HistoricalData'') []
       = two_docs (lit ''mongodb://localhost'') (lit ''TradingApp'') (lit ''HistoricalData'')"
    by (rule absent_symbol_empty_filter [OF h1 env_uri_set])
  have st: "two_docs (lit ''mongodb://localhost'') (lit ''TradingApp'') (lit ''HistoricalData'')
      = [doc_aapl, doc_msft]"
    by (simp add: two_docs_def)
  have c3: "find_docs two_docs (lit ''mongodb://localhost'') (lit ''TradingApp'')
      (lit ''HistoricalData'') [] = [doc_aapl, doc_msft]"
    using r [THEN conjunct2, THEN conjunct2] unfolding st .
  show ?thesis
    by (intro conjI) (fact h1 env_uri_set r [THEN conjunct1] r [THEN conjunct2, THEN conjunct1] c3)+
qed

lemma driver_calls_run_query:
  "take 2 (driver_calls (run_query rt a uri st))
     = [MongoClient uri, Find (db_name a) (collection a) (build_query rt a)]"
  by (simp add: run_query_def)

text \<open>
  C7. In the namespace that \<open>parse_args\<close> returns: without \<open>--db-name\<close> the database
  name is \<open>MONGODB_DB\<close> when that is set and non-empty, and \<open>TradingApp\<close> otherwise;
  without \<open>--collection\<close> the collection name is \<open>HistoricalData\<close>; without \<open>--symbol\<close>
  and \<open>--limit\<close> these are \<open>None\<close>. The two names are the ones the driver is called
  with.
\<close>

theorem configuration_defaults:
  assumes "parse_args env (Options opts) = Inr a"
  shows "(opt_db_name opts = None \<and> MONGODB_DB env = Some v \<and> v \<noteq> [] \<longrightarrow> db_name a = v)
     \<and> (opt_db_name opts = None \<and> (MONGODB_DB env = None \<or> MONGODB_DB env = Some []) \<longrightarrow>
          db_name a = lit ''TradingApp'')
     \<and> (opt_collection opts = None \<longrightarrow> collection a = lit ''HistoricalData'')
     \<and> (opt_symbol opts = None \<longrightarrow> symbol a = None)
     \<and> (opt_limit opts = None \<longrightarrow> limit a = None)
     \<and> (MONGODB_URI env = Some uri \<and> uri \<noteq> [] \<longrightarrow>
          take 2 (driver_calls (main rt env (Options opts) st))
            = [MongoClient uri, Find (db_name a) (collection a) (build_query rt a)])"
proof -
  have a: "a = \<lparr>db_name = (case opt_db_name opts of None \<Rightarrow> default_db_name env | Some v \<Rightarrow> v),
          collection = (case opt_collection opts of None \<Rightarrow> lit ''HistoricalData'' | Some v \<Rightarrow> v),
          symbol = opt_symbol opts, limit = opt_limit opts\<rparr>"
    using assms by (simp add: parse_args_def)
  have calls: "take 2 (driver_calls (main rt env (Options opts) st))
            = [MongoClient uri, Find (db_name a) (collection a) (build_query rt a)]"
    if "MONGODB_URI env = Some uri" "uri \<noteq> []"
    using main_with_uri [OF assms that, of rt st] by (simp add: driver_calls_run_query)
  have db1: "db_name a = v" if "opt_db_name opts = None" "MONGODB_DB env = Some v" "v \<noteq> []"
    using that by (simp add: a default_db_name_def)
  have db2: "db_name a = lit ''TradingApp''"
    if "opt_db_name opts = None" "MONGODB_DB env = None \<or> MONGODB_DB env = Some []"
    using that by (auto simp: a default_db_name_def)
  have rest: "(opt_collection opts = None \<longrightarrow> collection a = lit ''HistoricalData'')
     \<and> (opt_symbol opts = None \<longrightarrow> symbol a = None)
     \<and> (opt_limit opts = None \<longrightarrow> limit a = None)"
    by (simp add: a)
  show ?thesis using calls db1 db2 rest by blast
qed

text \<open>
  C8. With the connection string set and arguments that parse, when no document of the
  collection matches the filter, nothing is printed and the exit status is 0.
\<close>

theorem no_match_no_output:
  assumes "parse_args env cl = Inr a" and "MONGODB_URI env = Some uri" and "uri \<noteq> []"
    and "filter (matches (build_query rt a)) (st uri (db_name a) (collection a)) = []"
  shows "printed (main rt env cl st) = [] \<and> exit_status (main rt env cl st) = 0"
proof -
  have "result_sequence rt a uri st = []"
    using assms(4) by (simp add: result_sequence_def find_docs_def cursor_limit_def
        split: option.splits)
  then show ?thesis
    using main_with_uri [OF assms(1,2,3), of rt st] by (simp add: run_query_def)
qed

text \<open>
  C9. The \<open>i\<close>-th printed document has as many items as the \<open>i\<close>-th retrieved one; every
  item whose key is not \<open>_id\<close> is the retrieved item, at the same place; every key other
  than \<open>_id\<close> reads the same value; and a document without \<open>_id\<close> is printed as it was
  retrieved.
\<close>

theorem other_fields_unchanged:
  assumes "parse_args env cl = Inr a" and "MONGODB_URI env = Some uri" and "uri \<noteq> []"
  shows "length (printed (main rt env cl st)) = length (result_sequence rt a uri st)
     \<and> (i < length (result_sequence rt a uri st) \<longrightarrow>
          length (printed (main rt env cl st) ! i) = length (result_sequence rt a uri st ! i)
        \<and> (j < length (result_sequence rt a uri st ! i)
             \<and> fst (result_sequence rt a uri st ! i ! j) \<noteq> lit ''_id'' \<longrightarrow>
           printed (main rt env cl st) ! i ! j = result_sequence rt a uri st ! i ! j)
        \<and> (k \<noteq> lit ''_id'' \<longrightarrow>
             dict_get (printed (main rt env cl st) ! i) k
               = dict_get (result_sequence rt a uri st ! i) k)
        \<and> (dict_get (result_sequence rt a uri st ! i) (lit ''_id'') = None \<longrightarrow>
             printed (main rt env cl st) ! i = result_sequence rt a uri st ! i))"
proof -
  have "printed (main rt env cl st) = map (convert_id rt) (result_sequence rt a uri st)"
    using main_with_uri [OF assms, of rt st] by (simp add: printed_run_query)
  then show ?thesis
    by (simp add: length_convert_id nth_convert_id convert_id_other_key convert_id_absent)
qed

lemma py_upper_Nil: "py_upper rt [] = []"
  by (simp add: py_upper_def)

text \<open>
  C10. \<open>--symbol\<close> with the empty text gives the outcome of the invocation without
  \<open>--symbol\<close>, the filter sent being empty; \<open>--symbol\<close> with a non-empty text of white
  space only sends the filter \<open>{"symbol": ""}\<close>.
\<close>

theorem empty_or_blank_symbol:
  "main rt env (Options (opts\<lparr>opt_symbol := Some []\<rparr>)) st
     = main rt env (Options (opts\<lparr>opt_symbol := None\<rparr>)) st
   \<and> (MONGODB_URI env = Some uri \<and> uri \<noteq> [] \<longrightarrow>
        sent_filters (driver_calls (main rt env (Options (opts\<lparr>opt_symbol := Some []\<rparr>)) st))
          = [[]]
      \<and> (s \<noteq> [] \<and> list_all py_isspace s \<longrightarrow>
           sent_filters (driver_calls (main rt env (Options (opts\<lparr>opt_symbol := Some s\<rparr>)) st))
             = [[(lit ''symbol'', PStr [])]]))"
proof -
  have same: "main rt env (Options (opts\<lparr>opt_symbol := Some []\<rparr>)) st
     = main rt env (Options (opts\<lparr>opt_symbol := None\<rparr>)) st"
    by (simp add: main_def parse_args_def run_query_def result_sequence_def build_query_def
        split: option.splits)
  have empty: "sent_filters (driver_calls (main rt env (Options (opts\<lparr>opt_symbol := Some []\<rparr>)) st))
          = [[]]" if "MONGODB_URI env = Some uri" "uri \<noteq> []"
    by (simp add: sent_filters_main [OF that])
  have blank: "sent_filters (driver_calls (main rt env (Options (opts\<lparr>opt_symbol := Some s\<rparr>)) st))
             = [[(lit ''symbol'', PStr [])]]"
    if "MONGODB_URI env = Some uri" "uri \<noteq> []" "s \<noteq> []" "list_all py_isspace s"
    using that(3) by (simp add: sent_filters_main [OF that(1,2)] py_strip_blank [OF that(4)]
        py_upper_Nil)
  show ?thesis using same empty blank by blast
qed


text \<open>
  The same with no options, once without \<open>MONGODB_DB\<close> and once with
  \<open>MONGODB_DB=Research\<close>.
\<close>

theorem configuration_defaults_witness:
  "parse_args env_uri (Options no_options)
     = Inr \<lparr>db_name = lit ''TradingApp'', collection = lit ''HistoricalData'', symbol = None,
            limit = None\<rparr>
   \<and> opt_db_name no_options = None \<and> opt_collection no_options = None
   \<and> opt_symbol no_options = None \<and> opt_limit no_options = None
   \<and> (MONGODB_DB env_uri = None \<or> MONGODB_DB env_uri = Some [])
   \<and> MONGODB_URI env_uri = Some (lit ''mongodb://localhost'') \<and> lit ''mongodb://localhost'' \<noteq> []
   \<and> take 2 (driver_calls (main plain_runtime env_uri (Options no_options) two_docs))
       = [MongoClient (lit ''mongodb://localhost''),
          Find (lit ''TradingApp'') (lit ''HistoricalData'') []]
   \<and> parse_args env_uri_db (Options no_options)
       = Inr \<lparr>db_name = lit ''Research'', collection = lit ''HistoricalData'', symbol = None,
              limit = None\<rparr>
   \<and> MONGODB_DB env_uri_db = Some (lit ''Research'') \<and> lit ''Research'' \<noteq> []
   \<and> MONGODB_URI env_uri_db = Some (lit ''mongodb://localhost'')
   \<and> take 2 (driver_calls (main plain_runtime env_uri_db (Options no_options) two_docs))
       = [MongoClient (lit ''mongodb://localhost''),
          Find (lit ''Research'') (lit ''HistoricalData'') []]"
proof -
  let ?a1 = "\<lparr>db_name = lit ''TradingApp'', collection = lit ''HistoricalData'', symbol = None,
            limit = None\<rparr>"
  let ?a2 = "\<lparr>db_name = lit ''Research'', collection = lit ''HistoricalData'', symbol = None,
            limit = None\<rparr>"
  let ?u = "lit ''mongodb://localhost''"
  have o: "opt_db_name no_options = None" "opt_collection no_options = None"
    "opt_symbol no_options = None" "opt_limit no_options = None"
    by (simp_all add: no_options_def)
  have d1: "MONGODB_DB env_uri = None \<or> MONGODB_DB env_uri = Some []"
    by (simp add: env_uri_def)
  have p2: "parse_args env_uri_db (Options no_options) = Inr ?a2"
    by (simp add: parse_args_def no_options_def default_db_name_def env_uri_db_def lit_def)
  have d2: "MONGODB_DB env_uri_db = Some (lit ''Research'')" "lit ''Research'' \<noteq> []"
    by (simp_all add: env_uri_db_def lit_def)
  have u2: "MONGODB_URI env_uri_db = Some ?u"
    by (simp add: env_uri_db_def)
  have q: "build_query plain_runtime ?a1 = []" "build_query plain_runtime ?a2 = []"
    by (simp_all add: build_query_def)
  have "take 2 (driver_calls (main plain_runtime env_uri (Options no_options) two_docs))
      = [MongoClient ?u, Find (db_name ?a1) (collection ?a1) (build_query plain_runtime ?a1)]"
    using configuration_defaults [OF parse_no_options, where uri = ?u and rt = plain_runtime
        and st = two_docs] env_uri_set by blast
  then have c1: "take 2 (driver_calls (main plain_runtime env_uri (Options no_options) two_docs))
      = [MongoClient ?u, Find (lit ''TradingApp'') (lit ''HistoricalData'') []]"
    unfolding q by simp
  have "db_name ?a2 = lit ''Research''
      \<and> take 2 (driver_calls (main plain_runtime env_uri_db (Options no_options) two_docs))
      = [MongoClient ?u, Find (db_name ?a2) (collection ?a2) (build_query plain_runtime ?a2)]"
    using configuration_defaults [OF p2, where uri = ?u and rt = plain_runtime
        and st = two_docs and v = "lit ''Research''"] o(1) d2 u2 env_uri_set(2) by blast
  then have c2: "take 2 (driver_calls (main plain_runtime env_uri_db (Options no_options) two_docs))
      = [MongoClient ?u, Find (lit ''Research'') (lit ''HistoricalData'') []]"
    unfolding q by simp
  show ?thesis
    by (intro conjI) (fact parse_no_options o d1 env_uri_set c1 p2 d2 u2 c2)+
qed

text \<open>
  The same at \<open>--symbol zzz\<close> on the store of two documents.
\<close>

theorem no_match_no_output_witness:
  "parse_args env_uri (Options (no_options\<lparr>opt_symbol := Some (lit ''zzz'')\<rparr>))
     = Inr \<lparr>db_name = lit ''TradingApp'', collection = lit ''HistoricalData'',
            symbol = Some (lit ''zzz''), limit = None\<rparr>
   \<and> MONGODB_URI env_uri = Some (lit ''mongodb://localhost'') \<and> lit ''mongodb://localhost'' \<noteq> []
   \<and> filter (matches (build_query plain_runtime
          \<lparr>db_name = lit ''TradingApp'', collection = lit ''HistoricalData'',
             symbol = Some (lit ''zzz''), limit = None\<rparr>))
        (two_docs (lit ''mongodb://localhost'') (lit ''TradingApp'') (lit ''HistoricalData'')) = []
   \<and> printed (main plain_runtime env_uri
        (Options (no_options\<lparr>opt_symbol := Some (lit ''zzz'')\<rparr>)) two_docs) = []
   \<and> exit_status (main plain_runtime env_uri
        (Options (no_options\<lparr>opt_symbol := Some (lit ''zzz'')\<rparr>)) two_docs) = 0"
proof -
  let ?a = "\<lparr>db_name = lit ''TradingApp'', collection = lit ''HistoricalData'',
            symbol = Some (lit ''zzz''), limit = None\<rparr>"
  let ?u = "lit ''mongodb://localhost''"
  have p: "parse_args env_uri (Options (no_options\<lparr>opt_symbol := Some (lit ''zzz'')\<rparr>)) = Inr ?a"
    by (simp add: parse_args_def no_options_def default_db_name_def env_uri_def)
  have none: "filter (matches (build_query plain_runtime ?a))
      (two_docs ?u (lit ''TradingApp'') (lit ''HistoricalData'')) = []"
    by (simp add: build_query_def matches_def two_docs_def doc_aapl_def doc_msft_def dict_get_def
        py_upper_def py_strip_def py_isspace_def ascii_upper_def plain_runtime_def lit_def)
  have none': "filter (matches (build_query plain_runtime ?a))
      (two_docs ?u (db_name ?a) (collection ?a)) = []"
    using none by simp
  have r: "printed (main plain_runtime env_uri
        (Options (no_options\<lparr>opt_symbol := Some (lit ''zzz'')\<rparr>)) two_docs) = []
   \<and> exit_status (main plain_runtime env_uri
        (Options (no_options\<lparr>opt_symbol := Some (lit ''zzz'')\<rparr>)) two_docs) = 0"
    by (rule no_match_no_output [where st = two_docs and rt = plain_runtime, OF p env_uri_set none'])
  show ?thesis
    by (intro conjI) (fact p env_uri_set none r [THEN conjunct1] r [THEN conjunct2])+
qed

text \<open>
  The same on the store of two documents, the first with an \<open>_id\<close> and the second
  without.
\<close>

theorem other_fields_unchanged_witness:
  "parse_args env_uri (Options no_options)
     = Inr \<lparr>db_name = lit ''TradingApp'', collection = lit ''HistoricalData'', symbol = None,
            limit = None\<rparr>
   \<and> MONGODB_URI env_uri = Some (lit ''mongodb://localhost'') \<and> lit ''mongodb://localhost'' \<noteq> []
   \<and> length (printed (main plain_runtime env_uri (Options no_options) two_docs)) = 2
   \<and> (1::nat) < length doc_aapl \<and> fst (doc_aapl ! 1) \<noteq> lit ''_id''
   \<and> printed (main plain_runtime env_uri (Options no_options) two_docs) ! 0 ! 1
       = (lit ''symbol'', PStr (lit ''AAPL''))
   \<and> (0::nat) < length doc_msft \<and> fst (doc_msft ! 0) \<noteq> lit ''_id''
   \<and> lit ''price'' \<noteq> lit ''_id''
   \<and> dict_get doc_msft (lit ''_id'') = None
   \<and> length (printed (main plain_runtime env_uri (Options no_options) two_docs) ! 1) = 2
   \<and> printed (main plain_runtime env_uri (Options no_options) two_docs) ! 1 ! 0
       = (lit ''symbol'', PStr (lit ''MSFT''))
   \<and> dict_get (printed (main plain_runtime env_uri (Options no_options) two_docs) ! 1)
        (lit ''price'') = Some (PInt 2)
   \<and> printed (main plain_runtime env_uri (Options no_options) two_docs) ! 1 = doc_msft"
proof -
  let ?out = "main plain_runtime env_uri (Options no_options) two_docs"
  let ?rs = "[doc_aapl, doc_msft]"
  have a1: "(1::nat) < length doc_aapl" "fst (doc_aapl ! 1) \<noteq> lit ''_id''"
    by (simp_all add: doc_aapl_def lit_def)
  have m1: "(0::nat) < length doc_msft" "fst (doc_msft ! 0) \<noteq> lit ''_id''"
    "lit ''price'' \<noteq> lit ''_id''" "dict_get doc_msft (lit ''_id'') = None"
    by (simp_all add: doc_msft_def lit_def dict_get_def)
  have r0: "length (printed ?out) = length ?rs
     \<and> (0 < length ?rs \<longrightarrow>
          length (printed ?out ! 0) = length (?rs ! 0)
        \<and> (1 < length (?rs ! 0) \<and> fst (?rs ! 0 ! 1) \<noteq> lit ''_id'' \<longrightarrow>
             printed ?out ! 0 ! 1 = ?rs ! 0 ! 1)
        \<and> (lit ''price'' \<noteq> lit ''_id'' \<longrightarrow>
             dict_get (printed ?out ! 0) (lit ''price'') = dict_get (?rs ! 0) (lit ''price''))
        \<and> (dict_get (?rs ! 0) (lit ''_id'') = None \<longrightarrow> printed ?out ! 0 = ?rs ! 0))"
    using other_fields_unchanged [OF parse_no_options env_uri_set, where rt = plain_runtime
        and st = two_docs and i = 0 and j = 1 and k = "lit ''price''"]
    unfolding two_docs_all .
  have r1: "length (printed ?out) = length ?rs
     \<and> (1 < length ?rs \<longrightarrow>
          length (printed ?out ! 1) = length (?rs ! 1)
        \<and> (0 < length (?rs ! 1) \<and> fst (?rs ! 1 ! 0) \<noteq> lit ''_id'' \<longrightarrow>
             printed ?out ! 1 ! 0 = ?rs ! 1 ! 0)
        \<and> (lit ''price'' \<noteq> lit ''_id'' \<longrightarrow>
             dict_get (printed ?out ! 1) (lit ''price'') = dict_get (?rs ! 1) (lit ''price''))
        \<and> (dict_get (?rs ! 1) (lit ''_id'') = None \<longrightarrow> printed ?out ! 1 = ?rs ! 1))"
    using other_fields_unchanged [OF parse_no_options env_uri_set, where rt = plain_runtime
        and st = two_docs and i = 1 and j = 0 and k = "lit ''price''"]
    unfolding two_docs_all .
  have n: "?rs ! 0 = doc_aapl" "?rs ! 1 = doc_msft" "length ?rs = 2"
    by simp_all
  have c1: "length (printed ?out) = 2"
    using r0 [THEN conjunct1] by simp
  have "printed ?out ! 0 ! 1 = doc_aapl ! 1"
    using r0 a1 unfolding n by simp
  then have c2: "printed ?out ! 0 ! 1 = (lit ''symbol'', PStr (lit ''AAPL''))"
    by (simp add: doc_aapl_def)
  have all1: "length (printed ?out ! 1) = length doc_msft
      \<and> printed ?out ! 1 ! 0 = doc_msft ! 0
      \<and> dict_get (printed ?out ! 1) (lit ''price'') = dict_get doc_msft (lit ''price'')
      \<and> printed ?out ! 1 = doc_msft"
    using r1 m1 unfolding n by simp
  have c3: "length (printed ?out ! 1) = 2"
    using all1 [THEN conjunct1] by (simp add: doc_msft_def)
  have c4: "printed ?out ! 1 ! 0 = (lit ''symbol'', PStr (lit ''MSFT''))"
    using all1 [THEN conjunct2, THEN conjunct1] by (simp add: doc_msft_def)
  have c5: "dict_get (printed ?out ! 1) (lit ''price'') = Some (PInt 2)"
    using all1 [THEN conjunct2, THEN conjunct2, THEN conjunct1]
    by (simp add: doc_msft_def dict_get_def lit_def)
  have c6: "printed ?out ! 1 = doc_msft"
    using all1 by blast
  show ?thesis
    by (intro conjI) (fact parse_no_options env_uri_set c1 a1 c2 m1 c3 c4 c5 c6)+
qed

text \<open>
  The same at a space followed by a tab.
\<close>

theorem empty_or_blank_symbol_witness:
  "main plain_runtime env_uri (Options (no_options\<lparr>opt_symbol := Some []\<rparr>)) two_docs
     = main plain_runtime env_uri (Options (no_options\<lparr>opt_symbol := None\<rparr>)) two_docs
   \<and> MONGODB_URI env_uri = Some (lit ''mongodb://localhost'') \<and> lit ''mongodb://localhost'' \<noteq> []
   \<and> sent_filters (driver_calls
        (main plain_runtime env_uri (Options (no_options\<lparr>opt_symbol := Some []\<rparr>)) two_docs))
       = [[]]
   \<and> [32, 9] \<noteq> ([] :: pystr) \<and> list_all py_isspace [32, 9]
   \<and> sent_filters (driver_calls
        (main plain_runtime env_uri (Options (no_options\<lparr>opt_symbol := Some [32, 9]\<rparr>)) two_docs))
       = [[(lit ''symbol'', PStr [])]]"
proof -
  have b: "[32, 9] \<noteq> ([] :: pystr)" "list_all py_isspace [32, 9]"
    by (simp_all add: py_isspace_def)
  have r: "main plain_runtime env_uri (Options (no_options\<lparr>opt_symbol := Some []\<rparr>)) two_docs
     = main plain_runtime env_uri (Options (no_options\<lparr>opt_symbol := None\<rparr>)) two_docs
   \<and> (MONGODB_URI env_uri = Some (lit ''mongodb://localhost'') \<and> lit ''mongodb://localhost'' \<noteq> [] \<longrightarrow>
        sent_filters (driver_calls
          (main plain_runtime env_uri (Options (no_options\<lparr>opt_symbol := Some []\<rparr>)) two_docs))
          = [[]]
      \<and> ([32, 9] \<noteq> ([] :: pystr) \<and> list_all py_isspace [32, 9] \<longrightarrow>
           sent_filters (driver_calls
             (main plain_runtime env_uri (Options (no_options\<lparr>opt_symbol := Some [32, 9]\<rparr>))
                two_docs))
             = [[(lit ''symbol'', PStr [])]]))"
    by (rule empty_or_blank_symbol)
  have c1: "sent_filters (driver_calls
        (main plain_runtime env_uri (Options (no_options\<lparr>opt_symbol := Some []\<rparr>)) two_docs))
       = [[]]"
    using r env_uri_set by blast
  have c2: "sent_filters (driver_calls
        (main plain_runtime env_uri (Options (no_options\<lparr>opt_symbol := Some [32, 9]\<rparr>)) two_docs))
       = [[(lit ''symbol'', PStr [])]]"
    using r env_uri_set b by blast
  show ?thesis
    by (intro conjI) (fact r [THEN conjunct1] env_uri_set c1 b c2)+
qed

end
